theory Spec2Isabelle
  imports Main "HOL-Library.Word"
begin

section \<open>The game server: GameModeWithGameLift.cpp\<close>

text \<open>
  The GameLift server SDK module is an external collaborator. Every call the source makes
  on it becomes an entry of a trace, in program order, and what the SDK answers is an
  input of the model: the source discards every outcome it is given, and the model keeps
  the outcome beside the call so that this can be stated.
\<close>

datatype generic_outcome = Success | Failure

datatype sdk_call =
    InitSDK
  | ProcessReady "32 word" "string list"
  | ActivateGameSession
  | ProcessEnding

text \<open>
  The SDK's answers: the outcome of a call, given the calls made before it.
\<close>

type_synonym sdk_module = "sdk_call list \<Rightarrow> sdk_call \<Rightarrow> generic_outcome"

text \<open>
  \<open>FProcessParameters\<close> as the source fills it. The three delegates are bound to
  lambdas; a lambda is modelled by the SDK calls it makes when invoked (in order) and,
  for the health check, by the value it returns. \<open>'g\<close> is the SDK's game session
  object, which the source never inspects.
\<close>

record 'g process_parameters =
  OnStartGameSession :: "'g \<Rightarrow> sdk_call list"
  OnTerminate :: "sdk_call list"
  OnHealthCheck :: "unit \<Rightarrow> bool"
  port :: "32 word"
  logParameters :: "string list"

text \<open>
  What the process has done so far: the SDK calls with their outcomes, the parameter
  block handed to \<open>ProcessReady\<close> (none before that call), and the answers given to
  health checks.
\<close>

record 'g game_mode =
  trace :: "(sdk_call \<times> generic_outcome) list"
  handed :: "'g process_parameters option"
  health_replies :: "bool list"

text \<open>
  The inputs of the constructor: whether the build defines \<open>WITH_GAMELIFT\<close>, the value of
  \<open>FParse::Param(FCommandLine::Get(), TEXT("NoGameLift"))\<close>, whether
  \<open>LoadModuleChecked\<close> finds the SDK module (it stops the process otherwise), and the SDK.
\<close>

record environment =
  WITH_GAMELIFT :: bool
  NoGameLift :: bool
  module_loads :: bool
  sdk :: sdk_module

datatype fatal = ModuleNotLoaded

definition fresh :: "'g game_mode" where
  "fresh = \<lparr>trace = [], handed = None, health_replies = []\<rparr>"

definition call :: "sdk_module \<Rightarrow> sdk_call \<Rightarrow> 'g game_mode \<Rightarrow> 'g game_mode" where
  "call m c s = s\<lparr>trace := trace s @ [(c, m (map fst (trace s)) c)]\<rparr>"

definition onGameSession :: "'g \<Rightarrow> sdk_call list" where
  "onGameSession gameSession = [ActivateGameSession]"

definition SetupGameLift :: "environment \<Rightarrow> 'g game_mode \<Rightarrow> fatal + 'g game_mode" where
  "SetupGameLift env s =
     (if \<not> WITH_GAMELIFT env then Inr s
      else if \<not> module_loads env then Inl ModuleNotLoaded
      else
        let s1 = call (sdk env) InitSDK s;
            params = \<lparr>OnStartGameSession = onGameSession,
                      OnTerminate = [ProcessEnding],
                      OnHealthCheck = (\<lambda>_. True),
                      port = 7777,
                      logParameters = [] @ [''aLogFile.txt'']\<rparr>;
            s2 = call (sdk env) (ProcessReady (port params) (logParameters params)) s1
        in Inr (s2\<lparr>handed := Some params\<rparr>))"

definition AGameModeWithGameLift :: "environment \<Rightarrow> fatal + 'g game_mode" where
  "AGameModeWithGameLift env =
     (if WITH_GAMELIFT env then
        (if \<not> NoGameLift env then SetupGameLift env fresh else Inr fresh)
      else Inr fresh)"

text \<open>
  What reaches the process after construction. The agent can only invoke a delegate of
  the parameter block it was handed, so before \<open>ProcessReady\<close> there is nothing for it
  to invoke. The class overrides no shutdown hook of the engine, so a shutdown signalled
  by the host runs no code of this class.
\<close>

datatype 'g event = StartGameSession 'g | Terminate | HealthCheck | HostShutdown

fun deliver :: "sdk_module \<Rightarrow> 'g event \<Rightarrow> 'g game_mode \<Rightarrow> 'g game_mode" where
  "deliver m HostShutdown s = s"
| "deliver m (StartGameSession g) s =
     (case handed s of None \<Rightarrow> s
      | Some p \<Rightarrow> fold (call m) (OnStartGameSession p g) s)"
| "deliver m Terminate s =
     (case handed s of None \<Rightarrow> s
      | Some p \<Rightarrow> fold (call m) (OnTerminate p) s)"
| "deliver m HealthCheck s =
     (case handed s of None \<Rightarrow> s
      | Some p \<Rightarrow> s\<lparr>health_replies := health_replies s @ [OnHealthCheck p ()]\<rparr>)"

definition run :: "sdk_module \<Rightarrow> 'g event list \<Rightarrow> 'g game_mode \<Rightarrow> 'g game_mode" where
  "run m evs s = fold (deliver m) evs s"

text \<open>
  A whole execution: construction, then the events in the order they arrive. A fatal
  error during construction ends the process before any event.
\<close>

definition execution :: "environment \<Rightarrow> 'g event list \<Rightarrow> fatal + 'g game_mode" where
  "execution env evs =
     (case AGameModeWithGameLift env of
        Inl e \<Rightarrow> Inl e
      | Inr s \<Rightarrow> Inr (run (sdk env) evs s))"

subsection \<open>Vocabulary for the properties\<close>

text \<open>
  Orchestration is enabled when the build has the SDK, the command line does not carry
  the switch, and the module is found.
\<close>

definition enabled :: "environment \<Rightarrow> bool" where
  "enabled env = (WITH_GAMELIFT env \<and> \<not> NoGameLift env \<and> module_loads env)"

definition calls :: "'g game_mode \<Rightarrow> sdk_call list" where
  "calls s = map fst (trace s)"

fun is_ProcessReady :: "sdk_call \<Rightarrow> bool" where
  "is_ProcessReady (ProcessReady p l) = True"
| "is_ProcessReady _ = False"

text \<open>
  The parameter block exactly as \<open>SetupGameLift\<close> fills it, and the SDK calls the bound
  lambdas make in answer to each event.
\<close>

definition wired :: "'g process_parameters \<Rightarrow> bool" where
  "wired p = (OnStartGameSession p = onGameSession \<and> OnTerminate p = [ProcessEnding]
     \<and> OnHealthCheck p = (\<lambda>_. True) \<and> port p = 7777 \<and> logParameters p = [''aLogFile.txt''])"

fun response :: "'g event \<Rightarrow> sdk_call list" where
  "response (StartGameSession g) = [ActivateGameSession]"
| "response Terminate = [ProcessEnding]"
| "response HealthCheck = []"
| "response HostShutdown = []"


definition ready_succeeded :: "sdk_call \<times> generic_outcome \<Rightarrow> bool" where
  "ready_succeeded x = (is_ProcessReady (fst x) \<and> snd x = Success)"

definition registered :: "'g game_mode \<Rightarrow> bool" where
  "registered s = list_ex ready_succeeded (trace s)"


text \<open>
  The specification names six lifecycle states. The source keeps no state variable, so
  the state is read off the trace, following the specification's words: terminating once
  shutdown has been acknowledged to the agent; a session is active once an activation
  has been acknowledged with success (a rejected activation leaves the process awaiting
  a session); awaiting a session once registration has succeeded; registering once the
  SDK has been initialised; unregistered before that. \<open>Terminated\<close> is the exit of the
  process, which no trace of SDK calls shows.
\<close>

datatype lifecycle =
  Unregistered | Registering | AwaitingSession | SessionActive | Terminating | Terminated

definition spec_state :: "'g game_mode \<Rightarrow> lifecycle" where
  "spec_state s =
     (if ProcessEnding \<in> set (calls s) then Terminating
      else if (ActivateGameSession, Success) \<in> set (trace s) then SessionActive
      else if registered s then AwaitingSession
      else if InitSDK \<in> set (calls s) then Registering
      else Unregistered)"

text \<open>
  Concrete inputs for the examples: an agent that accepts every call, one that refuses
  every call, a server launched normally and one launched with \<open>-NoGameLift\<close>.
\<close>

definition agent_up :: sdk_module where
  "agent_up h c = Success"

definition agent_down :: sdk_module where
  "agent_down h c = Failure"

definition server_env :: "sdk_module \<Rightarrow> environment" where
  "server_env m = \<lparr>WITH_GAMELIFT = True, NoGameLift = False, module_loads = True, sdk = m\<rparr>"

definition offline_env :: "sdk_module \<Rightarrow> environment" where
  "offline_env m = \<lparr>WITH_GAMELIFT = True, NoGameLift = True, module_loads = True, sdk = m\<rparr>"

section \<open>The client: OfflineMainMenuWidget.cpp\<close>

text \<open>
  The widget's configuration: the three properties the constructor fills and the two
  credential strings the menu writes before \<open>OnLoginClicked\<close>.
\<close>

record widget =
  ApiGatewayEndpoint :: string
  LoginURI :: string
  StartSessionURI :: string
  user :: string
  pass :: string

definition UOfflineMainMenuWidget :: widget where
  "UOfflineMainMenuWidget =
     \<lparr>ApiGatewayEndpoint = ''https://yfg5i8v0w4.execute-api.us-west-2.amazonaws.com/potato-api-test-stage'',
      LoginURI = ''/login'',
      StartSessionURI = ''/startsession'',
      user = [],
      pass = []\<rparr>"

text \<open>
  An HTTP request as the source builds it: verb, URL, headers in the order they are set,
  content, and the member function bound to its completion delegate.
\<close>

datatype delegate = BoundOnLoginResponse | BoundOnStartSessionResponse

record http_request =
  Verb :: string
  URL :: string
  Headers :: "(string \<times> string) list"
  Content :: string
  OnProcessRequestComplete :: delegate

record http_response =
  GetContentAsString :: string

text \<open>
  The engine's JSON module is an external collaborator, taken as a parameter: the writer
  (\<open>FJsonSerializer::Serialize\<close> of an object of string fields, given in the order they
  were set), the reader (\<open>FJsonSerializer::Deserialize\<close>, \<open>None\<close> when it returns false)
  and the two accessors of \<open>FJsonObject\<close> the source uses. Both accessors return a value
  for every field name: their C++ signatures have no failure result.
\<close>

record 'j json_api =
  Serialize :: "(string \<times> string) list \<Rightarrow> string"
  Deserialize :: "string \<Rightarrow> 'j option"
  GetObjectField :: "'j \<Rightarrow> string \<Rightarrow> 'j"
  GetStringField :: "'j \<Rightarrow> string \<Rightarrow> string"

text \<open>
  What the client has done so far: the requests handed to the transport
  (\<open>ProcessRequest\<close>), and the level names given to \<open>UGameplayStatics::OpenLevel\<close>, each
  in order. Opening the level named \<open>host:port\<close> is how the engine is told to connect.
\<close>

record effects =
  processed :: "http_request list"
  opened :: "string list"

definition no_effects :: effects where
  "no_effects = \<lparr>processed = [], opened = []\<rparr>"

definition ProcessRequest :: "http_request \<Rightarrow> effects \<Rightarrow> effects" where
  "ProcessRequest r fx = fx\<lparr>processed := processed fx @ [r]\<rparr>"

definition OpenLevel :: "string \<Rightarrow> effects \<Rightarrow> effects" where
  "OpenLevel LevelName fx = fx\<lparr>opened := opened fx @ [LevelName]\<rparr>"

text \<open>
  \<open>LoginRequest\<close>: the request object it builds, then the hand-over to the transport.
  \<open>FString::Printf(TEXT("%s"), *usr)\<close> is \<open>usr\<close>.
\<close>

definition LoginHttpRequest :: "'j json_api \<Rightarrow> widget \<Rightarrow> string \<Rightarrow> string \<Rightarrow> http_request" where
  "LoginHttpRequest api w usr pwd =
     (let JsonObject = [(''username'', usr), (''password'', pwd)];
          JsonBody = Serialize api JsonObject
      in \<lparr>Verb = ''POST'',
          URL = ApiGatewayEndpoint w @ LoginURI w,
          Headers = [(''Content-Type'', ''application/json'')],
          Content = JsonBody,
          OnProcessRequestComplete = BoundOnLoginResponse\<rparr>)"

definition LoginRequest :: "'j json_api \<Rightarrow> widget \<Rightarrow> string \<Rightarrow> string \<Rightarrow> effects \<Rightarrow> effects" where
  "LoginRequest api w usr pwd fx = ProcessRequest (LoginHttpRequest api w usr pwd) fx"

definition OnLoginClicked :: "'j json_api \<Rightarrow> widget \<Rightarrow> effects \<Rightarrow> effects" where
  "OnLoginClicked api w fx = LoginRequest api w (user w) (pass w) fx"

definition StartSessionHttpRequest :: "widget \<Rightarrow> string \<Rightarrow> http_request" where
  "StartSessionHttpRequest w idt =
     \<lparr>Verb = ''GET'',
      URL = ApiGatewayEndpoint w @ StartSessionURI w,
      Headers = [(''Content-Type'', ''application/json''), (''Authorization'', idt)],
      Content = [],
      OnProcessRequestComplete = BoundOnStartSessionResponse\<rparr>"

definition StartSessionRequest :: "widget \<Rightarrow> string \<Rightarrow> effects \<Rightarrow> effects" where
  "StartSessionRequest w idt fx = ProcessRequest (StartSessionHttpRequest w idt) fx"

text \<open>
  The two completion handlers. The transport hands a valid response whenever
  \<open>bWasSuccessful\<close> is true; when it is false the source does not touch the response.
\<close>

definition OnLoginResponse ::
  "'j json_api \<Rightarrow> widget \<Rightarrow> http_request \<Rightarrow> http_response \<Rightarrow> bool \<Rightarrow> effects \<Rightarrow> effects" where
  "OnLoginResponse api w Request Response bWasSuccessful fx =
     (if bWasSuccessful then
        (case Deserialize api (GetContentAsString Response) of
           Some JsonObject \<Rightarrow>
             (let IdToken = GetStringField api (GetObjectField api JsonObject ''tokens'') ''IdToken''
              in StartSessionRequest w IdToken fx)
         | None \<Rightarrow> fx)
      else fx)"

definition OnStartSessionResponse ::
  "'j json_api \<Rightarrow> widget \<Rightarrow> http_request \<Rightarrow> http_response \<Rightarrow> bool \<Rightarrow> effects \<Rightarrow> effects" where
  "OnStartSessionResponse api w Request Response bWasSuccessful fx =
     (if bWasSuccessful then
        (case Deserialize api (GetContentAsString Response) of
           Some JsonObject \<Rightarrow>
             (let IpAddress = GetStringField api (GetObjectField api JsonObject ''PlayerSession'') ''IpAddress'';
                  Port = GetStringField api (GetObjectField api JsonObject ''PlayerSession'') ''Port'';
                  LevelName = IpAddress @ '':'' @ Port
              in OpenLevel LevelName fx)
         | None \<Rightarrow> fx)
      else fx)"

text \<open>
  The transport: a completed request invokes the handler bound to it, with the
  backend's reply (the response and \<open>bWasSuccessful\<close>).
\<close>

type_synonym backend = "http_request \<Rightarrow> http_response \<times> bool"

definition complete :: "'j json_api \<Rightarrow> backend \<Rightarrow> widget \<Rightarrow> http_request \<Rightarrow> effects \<Rightarrow> effects" where
  "complete api b w r fx =
     (case OnProcessRequestComplete r of
        BoundOnLoginResponse \<Rightarrow> OnLoginResponse api w r (fst (b r)) (snd (b r)) fx
      | BoundOnStartSessionResponse \<Rightarrow> OnStartSessionResponse api w r (fst (b r)) (snd (b r)) fx)"

text \<open>
  One login attempt: the click, then the completion of every request the click handed to
  the transport, then the completion of every request those completions handed over.
  (\<open>OnStartSessionResponse\<close> hands over none, so there is no further round.)
\<close>

definition attempt :: "'j json_api \<Rightarrow> backend \<Rightarrow> widget \<Rightarrow> effects \<Rightarrow> effects" where
  "attempt api b w fx =
     (let fx1 = OnLoginClicked api w fx;
          round1 = drop (length (processed fx)) (processed fx1);
          fx2 = fold (complete api b w) round1 fx1;
          round2 = drop (length (processed fx1)) (processed fx2)
      in fold (complete api b w) round2 fx2)"

subsection \<open>A JSON module for the examples\<close>

text \<open>
  The general statements below hold for every JSON module. Their examples need one that
  computes. This one reads the fragment of JSON made of objects and strings without
  escapes, with optional white space, which is all the examples use; on that fragment
  it answers as the engine's module does: \<open>Deserialize\<close> succeeds exactly on a text whose
  root is an object, \<open>GetObjectField\<close> of an absent or non-object field is the empty
  object, \<open>GetStringField\<close> of an absent or non-string field is the empty string, and
  a field set twice keeps its last value.
\<close>

datatype json = JString string | JObject "(string \<times> json) list"

fun skip_ws :: "string \<Rightarrow> string" where
  "skip_ws [] = []"
| "skip_ws (c # cs) =
     (if c = CHR '' '' \<or> c = CHR 0x09 \<or> c = CHR 0x0A \<or> c = CHR 0x0D then skip_ws cs else c # cs)"

text \<open>The characters of a string literal after its opening quote, and the rest.\<close>

fun read_string :: "string \<Rightarrow> (string \<times> string) option" where
  "read_string [] = None"
| "read_string (c # cs) =
     (if c = CHR 0x22 then Some ([], cs)
      else if c = CHR 0x5C then None
      else (case read_string cs of None \<Rightarrow> None | Some (s, r) \<Rightarrow> Some (c # s, r)))"

text \<open>
  A value, and the members of an object after its opening brace. The first argument
  bounds the number of nested calls; every call consumes a character, so the length of
  the text is enough.
\<close>

fun read_value :: "nat \<Rightarrow> string \<Rightarrow> (json \<times> string) option"
  and read_members :: "nat \<Rightarrow> string \<Rightarrow> ((string \<times> json) list \<times> string) option" where
  "read_value 0 cs = None"
| "read_value (Suc n) cs =
     (case skip_ws cs of
        [] \<Rightarrow> None
      | c # r \<Rightarrow>
          if c = CHR 0x22 then
            (case read_string r of None \<Rightarrow> None | Some (s, r') \<Rightarrow> Some (JString s, r'))
          else if c = CHR ''{'' then
            (case skip_ws r of
               [] \<Rightarrow> None
             | d # r' \<Rightarrow>
                 if d = CHR ''}'' then Some (JObject [], r')
                 else (case read_members n (d # r') of
                         None \<Rightarrow> None
                       | Some (m, r'') \<Rightarrow> Some (JObject m, r'')))
          else None)"
| "read_members 0 cs = None"
| "read_members (Suc n) cs =
     (case skip_ws cs of
        [] \<Rightarrow> None
      | c # r \<Rightarrow>
          if c = CHR 0x22 then
            (case read_string r of
               None \<Rightarrow> None
             | Some (k, r1) \<Rightarrow>
                 (case skip_ws r1 of
                    [] \<Rightarrow> None
                  | e # r2 \<Rightarrow>
                      if e = CHR '':'' then
                        (case read_value n r2 of
                           None \<Rightarrow> None
                         | Some (v, r3) \<Rightarrow>
                             (case skip_ws r3 of
                                [] \<Rightarrow> None
                              | f # r4 \<Rightarrow>
                                  if f = CHR '','' then
                                    (case read_members n r4 of
                                       None \<Rightarrow> None
                                     | Some (m, r5) \<Rightarrow> Some ((k, v) # m, r5))
                                  else if f = CHR ''}'' then Some ([(k, v)], r4)
                                  else None))
                      else None))
          else None)"

definition json_Deserialize :: "string \<Rightarrow> json option" where
  "json_Deserialize body =
     (case read_value (Suc (length body)) body of
        Some (JObject m, r) \<Rightarrow> if skip_ws r = [] then Some (JObject m) else None
      | _ \<Rightarrow> None)"

fun json_field :: "json \<Rightarrow> string \<Rightarrow> json option" where
  "json_field (JObject m) name = map_of (rev m) name"
| "json_field (JString s) name = None"

definition json_GetObjectField :: "json \<Rightarrow> string \<Rightarrow> json" where
  "json_GetObjectField j name =
     (case json_field j name of Some (JObject m) \<Rightarrow> JObject m | _ \<Rightarrow> JObject [])"

definition json_GetStringField :: "json \<Rightarrow> string \<Rightarrow> string" where
  "json_GetStringField j name =
     (case json_field j name of Some (JString s) \<Rightarrow> s | _ \<Rightarrow> [])"

text \<open>
  The writer of the examples puts the fields on one line, without escapes (the engine's
  writer indents; no statement below depends on the request's content).
\<close>

fun json_members :: "(string \<times> string) list \<Rightarrow> string" where
  "json_members [] = []"
| "json_members [(k, v)] = [CHR 0x22] @ k @ [CHR 0x22] @ '':'' @ [CHR 0x22] @ v @ [CHR 0x22]"
| "json_members ((k, v) # kvs) =
     [CHR 0x22] @ k @ [CHR 0x22] @ '':'' @ [CHR 0x22] @ v @ [CHR 0x22] @ '','' @ json_members kvs"

definition json_Serialize :: "(string \<times> string) list \<Rightarrow> string" where
  "json_Serialize kvs = ''{'' @ json_members kvs @ ''}''"

definition engine_json :: "json json_api" where
  "engine_json =
     \<lparr>Serialize = json_Serialize,
      Deserialize = json_Deserialize,
      GetObjectField = json_GetObjectField,
      GetStringField = json_GetStringField\<rparr>"

text \<open>The response bodies of the examples, and backends that answer with them.\<close>

definition login_body :: string where
  \<open>login_body = ''{"tokens":{"IdToken":"T"}}''\<close>

definition session_body :: string where
  \<open>session_body = ''{"PlayerSession":{"IpAddress":"10.0.0.5","Port":"7777"}}''\<close>

definition empty_body :: string where
  \<open>empty_body = ''{}''\<close>

definition mock_backend :: backend where
  "mock_backend r =
     (if OnProcessRequestComplete r = BoundOnLoginResponse
      then (\<lparr>GetContentAsString = login_body\<rparr>, True)
      else (\<lparr>GetContentAsString = session_body\<rparr>, True))"

definition login_down_backend :: backend where
  "login_down_backend r =
     (if OnProcessRequestComplete r = BoundOnLoginResponse
      then (\<lparr>GetContentAsString = []\<rparr>, False)
      else (\<lparr>GetContentAsString = session_body\<rparr>, True))"

section \<open>Verification\<close>

subsection \<open>Facts about the server\<close>

lemma calls_call: "calls (call m c s) = calls s @ [c]"
  by (simp add: calls_def call_def)

lemma handed_call: "handed (call m c s) = handed s"
  by (simp add: call_def)

lemma health_call: "health_replies (call m c s) = health_replies s"
  by (simp add: call_def)

lemma deliver_unwired: "handed s = None \<Longrightarrow> deliver m e s = s"
  by (cases e) simp_all

lemma run_unwired: "handed s = None \<Longrightarrow> run m evs s = s"
  unfolding run_def by (induction evs) (simp_all add: deliver_unwired)

lemma handed_fold_call: "handed (fold (call m) cs t) = handed t"
  by (induction cs arbitrary: t) (simp_all add: handed_call)

lemma handed_deliver: "handed (deliver m e s) = handed s"
  by (cases e; cases "handed s") (simp_all add: handed_fold_call)

lemma handed_run: "handed (run m evs s) = handed s"
  unfolding run_def by (induction evs arbitrary: s) (simp_all add: handed_deliver)

lemma calls_fold_call: "calls (fold (call m) cs s) = calls s @ cs"
  by (induction cs arbitrary: s) (simp_all add: calls_call)

lemma calls_deliver:
  assumes "handed s = Some p" and "wired p"
  shows "calls (deliver m e s) = calls s @ response e"
proof (cases e)
  case (StartGameSession g)
  then show ?thesis using assms by (simp add: wired_def calls_call onGameSession_def)
next
  case Terminate
  then show ?thesis using assms by (simp add: wired_def calls_call)
next
  case HealthCheck
  then show ?thesis using assms by (simp add: calls_def)
next
  case HostShutdown
  then show ?thesis by simp
qed

lemma calls_run:
  "handed s = Some p \<Longrightarrow> wired p \<Longrightarrow> calls (run m evs s) = calls s @ concat (map response evs)"
proof (induction evs arbitrary: s)
  case Nil
  then show ?case by (simp add: run_def)
next
  case (Cons e evs)
  have h: "handed (deliver m e s) = Some p" using Cons.prems by (simp add: handed_deliver)
  have "calls (run m evs (deliver m e s)) = calls (deliver m e s) @ concat (map response evs)"
    using Cons.IH [OF h Cons.prems(2)] .
  then show ?case using Cons.prems by (simp add: run_def calls_deliver)
qed

lemma SetupGameLift_enabled:
  "WITH_GAMELIFT env \<Longrightarrow> module_loads env \<Longrightarrow>
   \<exists>r p. SetupGameLift env fresh =
       Inr \<lparr>trace = [(InitSDK, sdk env [] InitSDK), (ProcessReady 7777 [''aLogFile.txt''], r)],
            handed = Some p, health_replies = []\<rparr> \<and> wired p
       \<and> r = sdk env [InitSDK] (ProcessReady 7777 [''aLogFile.txt''])"
  by (simp add: SetupGameLift_def fresh_def call_def wired_def Let_def)

lemma ctor_cases:
  "(AGameModeWithGameLift env = Inr (fresh :: 'g game_mode) \<and> \<not> enabled env)
   \<or> (AGameModeWithGameLift env = (Inl ModuleNotLoaded :: fatal + 'g game_mode) \<and> \<not> enabled env)
   \<or> (enabled env \<and> (\<exists>r p. AGameModeWithGameLift env =
       Inr (\<lparr>trace = [(InitSDK, sdk env [] InitSDK), (ProcessReady 7777 [''aLogFile.txt''], r)],
            handed = Some p, health_replies = []\<rparr> :: 'g game_mode) \<and> wired p
       \<and> r = sdk env [InitSDK] (ProcessReady 7777 [''aLogFile.txt''])))"
  by (simp add: AGameModeWithGameLift_def enabled_def SetupGameLift_def fresh_def call_def wired_def Let_def)




lemma trace_call: "trace (call m c s) = trace s @ [(c, m (map fst (trace s)) c)]"
  by (simp add: call_def)

lemma trace_fold_call_prefix: "\<exists>extra. trace (fold (call m) cs s) = trace s @ extra"
proof (induction cs arbitrary: s)
  case Nil
  show ?case by simp
next
  case (Cons c cs)
  obtain extra where "trace (fold (call m) cs (call m c s)) = trace (call m c s) @ extra"
    using Cons.IH by blast
  then show ?case by (simp add: trace_call)
qed

lemma trace_deliver_prefix: "\<exists>extra. trace (deliver m e s) = trace s @ extra"
  by (cases e; cases "handed s") (simp_all add: trace_fold_call_prefix)

lemma trace_run_prefix: "\<exists>extra. trace (run m evs s) = trace s @ extra"
proof (induction evs arbitrary: s)
  case Nil
  show ?case by (simp add: run_def)
next
  case (Cons e evs)
  obtain x where x: "trace (deliver m e s) = trace s @ x"
    using trace_deliver_prefix by blast
  obtain y where y: "trace (run m evs (deliver m e s)) = trace (deliver m e s) @ y"
    using Cons.IH by blast
  have "run m (e # evs) s = run m evs (deliver m e s)" by (simp add: run_def)
  then show ?case using x y by simp
qed

lemma trace_run:
  assumes "handed s = Some p" and "wired p"
  shows "\<exists>extra. trace (run m evs s) = trace s @ extra \<and> map fst extra = concat (map response evs)"
proof -
  obtain extra where e: "trace (run m evs s) = trace s @ extra"
    using trace_run_prefix by blast
  have "calls (run m evs s) = calls s @ concat (map response evs)"
    using calls_run [OF assms] .
  then have "map fst extra = concat (map response evs)"
    using e by (simp add: calls_def)
  then show ?thesis using e by blast
qed

lemma health_fold_call: "health_replies (fold (call m) cs s) = health_replies s"
  by (induction cs arbitrary: s) (simp_all add: health_call)

lemma health_run:
  assumes "handed s = Some p" and "wired p"
  shows "set (health_replies (run m evs s)) \<subseteq> set (health_replies s) \<union> {True}"
  using assms
proof (induction evs arbitrary: s)
  case Nil
  show ?case by (auto simp: run_def)
next
  case (Cons e evs)
  have h: "handed (deliver m e s) = Some p" using Cons.prems by (simp add: handed_deliver)
  have step: "set (health_replies (deliver m e s)) \<subseteq> set (health_replies s) \<union> {True}"
    using Cons.prems by (cases e) (auto simp: health_fold_call health_call wired_def onGameSession_def)
  have "set (health_replies (run m evs (deliver m e s))) \<subseteq> set (health_replies (deliver m e s)) \<union> {True}"
    using Cons.IH [OF h Cons.prems(2)] .
  then show ?case using step by (auto simp: run_def)
qed

lemma response_no_ready: "c \<in> set (concat (map response evs)) \<Longrightarrow> c = ActivateGameSession \<or> c = ProcessEnding"
proof (induction evs)
  case Nil
  then show ?case by simp
next
  case (Cons e evs)
  then show ?case by (cases e) auto
qed


lemma execution_cases:
  assumes "execution env evs = Inr (s :: 'g game_mode)"
  shows "(\<not> enabled env \<and> s = fresh)
     \<or> (enabled env \<and> (\<exists>p extra. wired p \<and> handed s = Some p
          \<and> trace s = [(InitSDK, sdk env [] InitSDK),
                (ProcessReady 7777 [''aLogFile.txt''],
                 sdk env [InitSDK] (ProcessReady 7777 [''aLogFile.txt'']))] @ extra
          \<and> map fst extra = concat (map response evs)))"
proof -
  consider (off) "AGameModeWithGameLift env = Inr (fresh :: 'g game_mode)" "\<not> enabled env"
    | (dead) "AGameModeWithGameLift env = (Inl ModuleNotLoaded :: fatal + 'g game_mode)"
    | (on) r p where "enabled env" "wired p"
        "r = sdk env [InitSDK] (ProcessReady 7777 [''aLogFile.txt''])"
        "AGameModeWithGameLift env =
           Inr (\<lparr>trace = [(InitSDK, sdk env [] InitSDK), (ProcessReady 7777 [''aLogFile.txt''], r)],
                handed = Some p, health_replies = []\<rparr> :: 'g game_mode)"
    using ctor_cases [of env] by blast
  then show ?thesis
  proof cases
    case off
    then have "s = run (sdk env) evs fresh" using assms by (simp add: execution_def)
    then have "s = fresh" by (simp add: run_unwired fresh_def)
    then show ?thesis using off by simp
  next
    case dead
    then show ?thesis using assms by (simp add: execution_def)
  next
    case on
    let ?s0 = "\<lparr>trace = [(InitSDK, sdk env [] InitSDK), (ProcessReady 7777 [''aLogFile.txt''], r)],
                handed = Some p, health_replies = []\<rparr> :: 'g game_mode"
    have s: "s = run (sdk env) evs ?s0" using assms on by (simp add: execution_def)
    have h0: "handed ?s0 = Some p" by simp
    obtain extra where e: "trace (run (sdk env) evs ?s0) = trace ?s0 @ extra"
        "map fst extra = concat (map response evs)"
      using trace_run [OF h0 on(2)] by blast
    have "handed s = Some p" using s by (simp add: handed_run)
    then show ?thesis using on e s by auto
  qed
qed

subsection \<open>Properties of the server\<close>

text \<open>
  Claim C10. In every run with orchestration enabled, whatever the SDK answers and
  whatever events follow, the only \<open>ProcessReady\<close> call of the run carries port 7777 and
  the log list with the single entry \<open>aLogFile.txt\<close>, and the parameter block handed
  over holds the same two values.
\<close>

theorem process_parameters_constant:
  assumes "enabled env"
  shows "\<exists>s. execution env evs = Inr (s :: 'g game_mode)
     \<and> filter is_ProcessReady (calls s) = [ProcessReady 7777 [''aLogFile.txt'']]
     \<and> map_option port (handed s) = Some 7777
     \<and> map_option logParameters (handed s) = Some [''aLogFile.txt'']"
proof -
  obtain s0 :: "'g game_mode" where s0: "AGameModeWithGameLift env = Inr s0"
    using ctor_cases [of env] assms by blast
  define s where "s = run (sdk env) evs s0"
  have ex: "execution env evs = Inr s" using s0 by (simp add: execution_def s_def)
  obtain p extra where p: "wired p" "handed s = Some p"
      "trace s = [(InitSDK, sdk env [] InitSDK),
                (ProcessReady 7777 [''aLogFile.txt''],
                 sdk env [InitSDK] (ProcessReady 7777 [''aLogFile.txt'']))] @ extra"
      "map fst extra = concat (map response evs)"
    using execution_cases [OF ex] assms by blast
  have "\<forall>c \<in> set (map fst extra). \<not> is_ProcessReady c"
    using response_no_ready p(4) by fastforce
  then have "filter is_ProcessReady (map fst extra) = []"
    by (simp add: filter_empty_conv)
  then have "filter is_ProcessReady (calls s) = [ProcessReady 7777 [''aLogFile.txt'']]"
    using p(3) by (simp add: calls_def)
  then show ?thesis using ex p(1,2) by (simp add: wired_def)
qed

theorem process_parameters_constant_witness:
  "enabled (server_env agent_down)
   \<and> (\<exists>s. execution (server_env agent_down) [HealthCheck, StartGameSession (), Terminate] = Inr s
     \<and> filter is_ProcessReady (calls s) = [ProcessReady 7777 [''aLogFile.txt'']]
     \<and> map_option port (handed s) = Some 7777
     \<and> map_option logParameters (handed s) = Some [''aLogFile.txt''])"
proof -
  have h: "enabled (server_env agent_down)" by (simp add: enabled_def server_env_def)
  show ?thesis
    using h process_parameters_constant [OF h, of "[HealthCheck, StartGameSession (), Terminate]"]
    by simp
qed

text \<open>
  Claim C8. With the \<open>NoGameLift\<close> switch on the command line, the constructor makes no
  SDK call and hands over no parameter block, and no later event (a terminate request, a
  session start, a health check, a shutdown of the host) makes the process call the SDK
  or answer a health check: the trace stays empty, so neither \<open>InitSDK\<close>,
  \<open>ProcessReady\<close> nor \<open>ProcessEnding\<close> is ever called.
\<close>

theorem skip_flag_wires_nothing:
  assumes "NoGameLift env"
  shows "\<exists>s. execution env evs = Inr (s :: 'g game_mode)
     \<and> trace s = [] \<and> handed s = None \<and> health_replies s = []"
proof -
  have "AGameModeWithGameLift env = Inr (fresh :: 'g game_mode)"
    using assms by (simp add: AGameModeWithGameLift_def)
  then have "execution env evs = Inr (fresh :: 'g game_mode)"
    by (simp add: execution_def run_unwired fresh_def)
  then show ?thesis by (simp add: fresh_def)
qed

theorem skip_flag_wires_nothing_witness:
  "NoGameLift (offline_env agent_up)
   \<and> (\<exists>s. execution (offline_env agent_up) [HostShutdown, Terminate, StartGameSession (), HealthCheck] = Inr s
     \<and> trace s = [] \<and> handed s = None \<and> health_replies s = [])"
proof -
  have h: "NoGameLift (offline_env agent_up)" by (simp add: offline_env_def)
  show ?thesis
    using h skip_flag_wires_nothing [OF h, of "[HostShutdown, Terminate, StartGameSession (), HealthCheck]"]
    by simp
qed

lemma registered_wired:
  assumes "execution env evs = Inr (s :: 'g game_mode)" and "registered s"
  shows "\<exists>p. wired p \<and> handed s = Some p"
proof -
  have "s \<noteq> fresh" using assms(2) by (auto simp: registered_def fresh_def)
  then show ?thesis using execution_cases [OF assms(1)] by blast
qed

lemma ctor_no_replies: "AGameModeWithGameLift env = Inr s0 \<Longrightarrow> health_replies s0 = []"
  by (auto simp: AGameModeWithGameLift_def SetupGameLift_def fresh_def call_def Let_def
      split: if_splits)

text \<open>
  Claim C9. In any state reached after a successful registration, whatever happened
  since, a health check is answered with \<open>True\<close>, and so was every health check
  answered before.
\<close>

theorem health_check_answers_true:
  assumes "execution env evs = Inr (s :: 'g game_mode)" and "registered s"
  shows "health_replies (deliver (sdk env) HealthCheck s) = health_replies s @ [True]
     \<and> set (health_replies s) \<subseteq> {True}"
proof -
  obtain p where p: "wired p" "handed s = Some p"
    using registered_wired [OF assms] by blast
  have a: "health_replies (deliver (sdk env) HealthCheck s) = health_replies s @ [True]"
    using p by (simp add: wired_def)
  obtain s0 :: "'g game_mode" where s0: "AGameModeWithGameLift env = Inr s0" "s = run (sdk env) evs s0"
    using assms(1) by (auto simp: execution_def split: sum.splits)
  have h0: "handed s0 = Some p" using s0(2) p(2) by (simp add: handed_run)
  have "health_replies s0 = []" using ctor_no_replies [OF s0(1)] .
  then have "set (health_replies s) \<subseteq> {True}"
    using health_run [OF h0 p(1), of "sdk env" evs] s0(2) by simp
  then show ?thesis using a by simp
qed

theorem health_check_answers_true_witness:
  "\<exists>s. execution (server_env agent_up) [HealthCheck, HostShutdown, HealthCheck] = Inr (s :: unit game_mode)
     \<and> registered s
     \<and> health_replies (deliver (sdk (server_env agent_up)) HealthCheck s) = health_replies s @ [True]
     \<and> set (health_replies s) \<subseteq> {True}"
proof -
  define s :: "unit game_mode" where
    "s = \<lparr>trace = [(InitSDK, Success), (ProcessReady 7777 [''aLogFile.txt''], Success)],
          handed = Some \<lparr>OnStartGameSession = onGameSession, OnTerminate = [ProcessEnding],
                   OnHealthCheck = (\<lambda>_. True), port = 7777, logParameters = [''aLogFile.txt'']\<rparr>,
          health_replies = [True, True]\<rparr>"
  have e: "execution (server_env agent_up) [HealthCheck, HostShutdown, HealthCheck] = Inr s"
    by (simp add: execution_def AGameModeWithGameLift_def SetupGameLift_def server_env_def
        agent_up_def fresh_def call_def run_def s_def Let_def)
  have r: "registered s"
    by (simp add: registered_def ready_succeeded_def s_def)
  show ?thesis using e r health_check_answers_true [OF e r] by blast
qed

text \<open>
  Claim C7. When the process is awaiting a session (registered, no activation
  acknowledged, no shutdown acknowledged) and the agent delivers the terminate callback,
  the process calls \<open>ProcessEnding\<close> and nothing else, that call is the only
  \<open>ProcessEnding\<close> of the trace, and the state read off the trace is \<open>Terminating\<close>.
\<close>

theorem terminate_while_awaiting:
  assumes "execution env evs = Inr (s :: 'g game_mode)" and "spec_state s = AwaitingSession"
  shows "spec_state (deliver (sdk env) Terminate s) = Terminating
     \<and> calls (deliver (sdk env) Terminate s) = calls s @ [ProcessEnding]
     \<and> count_list (calls (deliver (sdk env) Terminate s)) ProcessEnding = 1"
proof -
  have r: "registered s" and n: "ProcessEnding \<notin> set (calls s)"
    using assms(2) by (auto simp: spec_state_def split: if_splits)
  obtain p where p: "wired p" "handed s = Some p"
    using registered_wired [OF assms(1) r] by blast
  have c: "calls (deliver (sdk env) Terminate s) = calls s @ [ProcessEnding]"
    using calls_deliver [OF p(2) p(1), of "sdk env" Terminate] by simp
  have "count_list (calls s) ProcessEnding = 0" using n by (simp add: count_list_0_iff)
  then have "count_list (calls (deliver (sdk env) Terminate s)) ProcessEnding = 1"
    using c by simp
  moreover have "spec_state (deliver (sdk env) Terminate s) = Terminating"
    using c by (simp add: spec_state_def)
  ultimately show ?thesis using c by simp
qed

theorem terminate_while_awaiting_witness:
  "\<exists>s. execution (server_env agent_up) [HealthCheck] = Inr (s :: unit game_mode)
     \<and> spec_state s = AwaitingSession
     \<and> spec_state (deliver (sdk (server_env agent_up)) Terminate s) = Terminating
     \<and> calls (deliver (sdk (server_env agent_up)) Terminate s) = calls s @ [ProcessEnding]
     \<and> count_list (calls (deliver (sdk (server_env agent_up)) Terminate s)) ProcessEnding = 1"
proof -
  define s :: "unit game_mode" where
    "s = \<lparr>trace = [(InitSDK, Success), (ProcessReady 7777 [''aLogFile.txt''], Success)],
          handed = Some \<lparr>OnStartGameSession = onGameSession, OnTerminate = [ProcessEnding],
                   OnHealthCheck = (\<lambda>_. True), port = 7777, logParameters = [''aLogFile.txt'']\<rparr>,
          health_replies = [True]\<rparr>"
  have e: "execution (server_env agent_up) [HealthCheck] = Inr s"
    by (simp add: execution_def AGameModeWithGameLift_def SetupGameLift_def server_env_def
        agent_up_def fresh_def call_def run_def s_def Let_def)
  have a: "spec_state s = AwaitingSession"
    by (simp add: spec_state_def registered_def ready_succeeded_def calls_def s_def)
  show ?thesis using e a terminate_while_awaiting [OF e a] by blast
qed






text \<open>
  Claim C4, as amended. Construction ends fatally exactly when the SDK module cannot be
  loaded. The outcomes of \<open>InitSDK\<close> and \<open>ProcessReady\<close> are discarded: replacing the
  SDK's answers by any others changes neither whether construction completes, nor the
  calls it makes, nor the parameter block it hands over.
\<close>

theorem registration_failure_not_surfaced:
  "isl (AGameModeWithGameLift env :: fatal + 'g game_mode)
     = (WITH_GAMELIFT env \<and> \<not> NoGameLift env \<and> \<not> module_loads env)
   \<and> map_sum id calls (AGameModeWithGameLift (env\<lparr>sdk := m\<rparr>) :: fatal + 'g game_mode)
     = map_sum id calls (AGameModeWithGameLift env :: fatal + 'g game_mode)
   \<and> map_sum id handed (AGameModeWithGameLift (env\<lparr>sdk := m\<rparr>) :: fatal + 'g game_mode)
     = map_sum id handed (AGameModeWithGameLift env :: fatal + 'g game_mode)"
  by (simp add: AGameModeWithGameLift_def SetupGameLift_def fresh_def call_def calls_def Let_def)

text \<open>
  Claim C4 as stated fails: with an agent that refuses both \<open>InitSDK\<close> and
  \<open>ProcessReady\<close>, construction completes normally, after the same calls and with the
  same parameter block as with an agent that accepts them.
\<close>

theorem registration_failure_counterexample:
  "map_sum id trace (AGameModeWithGameLift (server_env agent_down) :: fatal + unit game_mode)
     = Inr [(InitSDK, Failure), (ProcessReady 7777 [''aLogFile.txt''], Failure)]
   \<and> map_sum id calls (AGameModeWithGameLift (server_env agent_down) :: fatal + unit game_mode)
     = map_sum id calls (AGameModeWithGameLift (server_env agent_up) :: fatal + unit game_mode)
   \<and> map_sum id handed (AGameModeWithGameLift (server_env agent_down) :: fatal + unit game_mode)
     = map_sum id handed (AGameModeWithGameLift (server_env agent_up) :: fatal + unit game_mode)"
  by (simp add: AGameModeWithGameLift_def SetupGameLift_def fresh_def call_def calls_def Let_def
      server_env_def agent_down_def agent_up_def)

subsection \<open>Facts about the client\<close>

lemma processed_OnStartSessionResponse:
  "processed (OnStartSessionResponse api w r resp ok fx) = processed fx"
  by (simp add: OnStartSessionResponse_def OpenLevel_def Let_def split: option.splits)

lemma opened_StartSessionRequest: "opened (StartSessionRequest w idt fx) = opened fx"
  by (simp add: StartSessionRequest_def ProcessRequest_def)

lemma processed_StartSessionRequest:
  "processed (StartSessionRequest w idt fx) = processed fx @ [StartSessionHttpRequest w idt]"
  by (simp add: StartSessionRequest_def ProcessRequest_def)

lemma opened_OnLoginResponse: "opened (OnLoginResponse api w r resp ok fx) = opened fx"
  by (simp add: OnLoginResponse_def opened_StartSessionRequest Let_def split: option.splits)

lemma delegate_login [simp]:
  "OnProcessRequestComplete (LoginHttpRequest api w usr pwd) = BoundOnLoginResponse"
  by (simp add: LoginHttpRequest_def Let_def)

lemma delegate_session [simp]:
  "OnProcessRequestComplete (StartSessionHttpRequest w idt) = BoundOnStartSessionResponse"
  by (simp add: StartSessionHttpRequest_def)

text \<open>
  The first round of an attempt is the login request alone, so an attempt is the click,
  the login handler on the backend's reply, and the completion of what that handler sent.
\<close>

lemma attempt_unfold:
  "attempt api b w fx =
     (let r1 = LoginHttpRequest api w (user w) (pass w);
          fx1 = ProcessRequest r1 fx;
          fx2 = OnLoginResponse api w r1 (fst (b r1)) (snd (b r1)) fx1
      in fold (complete api b w) (drop (length (processed fx1)) (processed fx2)) fx2)"
  by (simp add: attempt_def OnLoginClicked_def LoginRequest_def ProcessRequest_def
      complete_def Let_def)

lemma attempt_login_failed:
  assumes "\<not> snd (b (LoginHttpRequest api w (user w) (pass w)))"
  shows "attempt api b w fx = ProcessRequest (LoginHttpRequest api w (user w) (pass w)) fx"
  using assms by (simp add: attempt_unfold OnLoginResponse_def Let_def)

lemma attempt_login_unreadable:
  assumes "Deserialize api (GetContentAsString (fst (b (LoginHttpRequest api w (user w) (pass w))))) = None"
  shows "attempt api b w fx = ProcessRequest (LoginHttpRequest api w (user w) (pass w)) fx"
  using assms by (simp add: attempt_unfold OnLoginResponse_def Let_def)

lemma attempt_login_read:
  assumes "snd (b (LoginHttpRequest api w (user w) (pass w)))"
    and "Deserialize api (GetContentAsString (fst (b (LoginHttpRequest api w (user w) (pass w))))) = Some j"
    and "GetStringField api (GetObjectField api j ''tokens'') ''IdToken'' = T"
  shows "attempt api b w fx =
     OnStartSessionResponse api w (StartSessionHttpRequest w T)
       (fst (b (StartSessionHttpRequest w T))) (snd (b (StartSessionHttpRequest w T)))
       (ProcessRequest (StartSessionHttpRequest w T)
         (ProcessRequest (LoginHttpRequest api w (user w) (pass w)) fx))"
  using assms
  by (simp add: attempt_unfold OnLoginResponse_def Let_def StartSessionRequest_def
      ProcessRequest_def complete_def)

lemma engine_reads_login_body:
  "Deserialize engine_json login_body = Some (JObject [(''tokens'', JObject [(''IdToken'', JString ''T'')])])"
  by (simp add: engine_json_def json_Deserialize_def login_body_def)

lemma engine_reads_session_body:
  "Deserialize engine_json session_body =
     Some (JObject [(''PlayerSession'',
       JObject [(''IpAddress'', JString ''10.0.0.5''), (''Port'', JString ''7777'')])])"
  by (simp add: engine_json_def json_Deserialize_def session_body_def)

lemma engine_reads_empty_body: "Deserialize engine_json empty_body = Some (JObject [])"
  by (simp add: engine_json_def json_Deserialize_def empty_body_def)

subsection \<open>Properties of the client\<close>

text \<open>
  Claim C5. When the backend's reply to the login request is a transport failure, the
  attempt hands exactly the login request to the transport, sends no session request and
  opens no level, whatever the backend would have answered to any other request.
\<close>

theorem login_failure_opens_nothing:
  assumes "\<not> snd (b (LoginHttpRequest api w (user w) (pass w)))"
  shows "opened (attempt api b w fx) = opened fx
     \<and> processed (attempt api b w fx) = processed fx @ [LoginHttpRequest api w (user w) (pass w)]"
  using assms by (simp add: attempt_login_failed ProcessRequest_def)

theorem login_failure_opens_nothing_witness:
  "\<not> snd (login_down_backend (LoginHttpRequest engine_json UOfflineMainMenuWidget [] []))
   \<and> opened (attempt engine_json login_down_backend UOfflineMainMenuWidget no_effects) = []
   \<and> processed (attempt engine_json login_down_backend UOfflineMainMenuWidget no_effects)
       = [LoginHttpRequest engine_json UOfflineMainMenuWidget [] []]"
proof -
  have h: "\<not> snd (login_down_backend
      (LoginHttpRequest engine_json UOfflineMainMenuWidget (user UOfflineMainMenuWidget)
        (pass UOfflineMainMenuWidget)))"
    by (simp add: login_down_backend_def)
  have u: "user UOfflineMainMenuWidget = []" "pass UOfflineMainMenuWidget = []"
    by (simp_all add: UOfflineMainMenuWidget_def)
  show ?thesis
    using h login_failure_opens_nothing
      [where b = login_down_backend and api = engine_json and w = UOfflineMainMenuWidget
        and fx = no_effects]
    by (simp add: u no_effects_def)
qed

text \<open>
  Claim C3. When the login reply is read as carrying the token \<open>T\<close>, the attempt sends
  the session request with \<open>T\<close> as its \<open>Authorization\<close> header; when the reply to that
  request is the body
  \<^verbatim>\<open>{"PlayerSession":{"IpAddress":"10.0.0.5","Port":"7777"}}\<close>
  and the JSON module reads the two fields of that body as they are written, the attempt
  opens exactly one level, named \<open>10.0.0.5:7777\<close>: the host, a colon, the port.
\<close>

theorem session_reply_opens_target:
  assumes "b (LoginHttpRequest api w (user w) (pass w)) = (R, True)"
    and "Deserialize api (GetContentAsString R) = Some lj"
    and "GetStringField api (GetObjectField api lj ''tokens'') ''IdToken'' = T"
    and "b (StartSessionHttpRequest w T) = (\<lparr>GetContentAsString = session_body\<rparr>, True)"
    and "Deserialize api session_body = Some sj"
    and "GetStringField api (GetObjectField api sj ''PlayerSession'') ''IpAddress'' = ''10.0.0.5''"
    and "GetStringField api (GetObjectField api sj ''PlayerSession'') ''Port'' = ''7777''"
  shows "opened (attempt api b w fx) = opened fx @ [''10.0.0.5:7777'']
     \<and> processed (attempt api b w fx)
         = processed fx @ [LoginHttpRequest api w (user w) (pass w), StartSessionHttpRequest w T]"
proof -
  have a: "snd (b (LoginHttpRequest api w (user w) (pass w)))"
    using assms(1) by simp
  have d: "Deserialize api (GetContentAsString (fst (b (LoginHttpRequest api w (user w) (pass w))))) = Some lj"
    using assms(1,2) by simp
  have "attempt api b w fx =
     OnStartSessionResponse api w (StartSessionHttpRequest w T)
       \<lparr>GetContentAsString = session_body\<rparr> True
       (ProcessRequest (StartSessionHttpRequest w T)
         (ProcessRequest (LoginHttpRequest api w (user w) (pass w)) fx))"
    using attempt_login_read [where b = b and api = api and w = w and j = lj and T = T and fx = fx]
      a d assms(3,4)
    by simp
  then show ?thesis
    using assms(5,6,7)
    by (simp add: OnStartSessionResponse_def OpenLevel_def ProcessRequest_def Let_def)
qed

theorem session_reply_opens_target_witness:
  "opened (attempt engine_json mock_backend UOfflineMainMenuWidget no_effects) = [''10.0.0.5:7777'']
   \<and> processed (attempt engine_json mock_backend UOfflineMainMenuWidget no_effects)
       = [LoginHttpRequest engine_json UOfflineMainMenuWidget [] [],
          StartSessionHttpRequest UOfflineMainMenuWidget ''T'']"
proof -
  let ?w = UOfflineMainMenuWidget
  let ?lj = "JObject [(''tokens'', JObject [(''IdToken'', JString ''T'')])]"
  let ?sj = "JObject [(''PlayerSession'',
       JObject [(''IpAddress'', JString ''10.0.0.5''), (''Port'', JString ''7777'')])]"
  have h1: "mock_backend (LoginHttpRequest engine_json ?w (user ?w) (pass ?w))
      = (\<lparr>GetContentAsString = login_body\<rparr>, True)"
    by (simp add: mock_backend_def)
  have h2: "Deserialize engine_json (GetContentAsString \<lparr>GetContentAsString = login_body\<rparr>) = Some ?lj"
    using engine_reads_login_body by simp
  have h3: "GetStringField engine_json (GetObjectField engine_json ?lj ''tokens'') ''IdToken'' = ''T''"
    by (simp add: engine_json_def json_GetObjectField_def json_GetStringField_def)
  have h4: "mock_backend (StartSessionHttpRequest ?w ''T'') = (\<lparr>GetContentAsString = session_body\<rparr>, True)"
    by (simp add: mock_backend_def)
  have h5: "Deserialize engine_json session_body = Some ?sj"
    by (rule engine_reads_session_body)
  have h6: "GetStringField engine_json (GetObjectField engine_json ?sj ''PlayerSession'') ''IpAddress'' = ''10.0.0.5''"
    by (simp add: engine_json_def json_GetObjectField_def json_GetStringField_def)
  have h7: "GetStringField engine_json (GetObjectField engine_json ?sj ''PlayerSession'') ''Port'' = ''7777''"
    by (simp add: engine_json_def json_GetObjectField_def json_GetStringField_def)
  have u: "user ?w = []" "pass ?w = []"
    by (simp_all add: UOfflineMainMenuWidget_def)
  show ?thesis
    using session_reply_opens_target
      [where b = mock_backend and api = engine_json and w = ?w and fx = no_effects
        and R = "\<lparr>GetContentAsString = login_body\<rparr>" and lj = ?lj and sj = ?sj and T = "''T''"]
      h1 h2 h3 h4 h5 h6 h7
    by (simp add: u no_effects_def)
qed

text \<open>
  Claim C1, as amended. Neither \<open>LoginRequest\<close> nor its response handler opens a level:
  login alone yields no connection target. The response handler does send the session
  request itself: exactly one, carrying the string read at \<open>tokens.IdToken\<close>, when the
  transport succeeded and the body deserializes, and none otherwise.
\<close>

theorem login_chains_session_request:
  "opened (LoginRequest api w usr pwd fx) = opened fx
   \<and> processed (LoginRequest api w usr pwd fx) = processed fx @ [LoginHttpRequest api w usr pwd]
   \<and> opened (OnLoginResponse api w r resp ok fx) = opened fx
   \<and> processed (OnLoginResponse api w r resp ok fx) = processed fx @
       (if ok then
          (case Deserialize api (GetContentAsString resp) of
             None \<Rightarrow> []
           | Some j \<Rightarrow>
               [StartSessionHttpRequest w (GetStringField api (GetObjectField api j ''tokens'') ''IdToken'')])
        else [])"
  by (simp add: LoginRequest_def ProcessRequest_def OnLoginResponse_def StartSessionRequest_def
      Let_def split: option.splits)

text \<open>
  Claim C1 as stated fails: on a successful reply with the body
  \<^verbatim>\<open>{"tokens":{"IdToken":"T"}}\<close> the login response handler itself hands the session
  request to the transport.
\<close>

theorem login_chains_session_request_counterexample:
  "processed (OnLoginResponse engine_json UOfflineMainMenuWidget
       (LoginHttpRequest engine_json UOfflineMainMenuWidget ''u'' ''p'')
       \<lparr>GetContentAsString = login_body\<rparr> True no_effects)
     = [StartSessionHttpRequest UOfflineMainMenuWidget ''T'']"
  using engine_reads_login_body
  by (simp add: OnLoginResponse_def StartSessionRequest_def ProcessRequest_def no_effects_def
      engine_json_def json_GetObjectField_def json_GetStringField_def Let_def)

text \<open>
  Claim C2, as amended. For a login reply that succeeded at the transport level the
  handler never looks whether \<open>tokens.IdToken\<close> is present and reports no error. When the
  body does not deserialize it does nothing. When the body deserializes it always sends
  the session request, with whatever string the accessors return at \<open>tokens.IdToken\<close>
  as the \<open>Authorization\<close> header.
\<close>

theorem malformed_login_reply_not_rejected:
  "(Deserialize api (GetContentAsString resp) = None
      \<longrightarrow> OnLoginResponse api w r resp True fx = fx)
   \<and> (\<forall>j. Deserialize api (GetContentAsString resp) = Some j
      \<longrightarrow> OnLoginResponse api w r resp True fx
          = ProcessRequest
              (StartSessionHttpRequest w (GetStringField api (GetObjectField api j ''tokens'') ''IdToken''))
              fx)"
  by (simp add: OnLoginResponse_def StartSessionRequest_def Let_def)

theorem malformed_login_reply_not_rejected_witness:
  "Deserialize engine_json (GetContentAsString \<lparr>GetContentAsString = ''not json''\<rparr>) = None
   \<and> OnLoginResponse engine_json UOfflineMainMenuWidget
        (LoginHttpRequest engine_json UOfflineMainMenuWidget ''u'' ''p'')
        \<lparr>GetContentAsString = ''not json''\<rparr> True no_effects = no_effects
   \<and> Deserialize engine_json (GetContentAsString \<lparr>GetContentAsString = empty_body\<rparr>) = Some (JObject [])
   \<and> OnLoginResponse engine_json UOfflineMainMenuWidget
        (LoginHttpRequest engine_json UOfflineMainMenuWidget ''u'' ''p'')
        \<lparr>GetContentAsString = empty_body\<rparr> True no_effects
      = ProcessRequest (StartSessionHttpRequest UOfflineMainMenuWidget []) no_effects"
proof -
  let ?w = UOfflineMainMenuWidget
  let ?r = "LoginHttpRequest engine_json ?w ''u'' ''p''"
  have n: "Deserialize engine_json (GetContentAsString \<lparr>GetContentAsString = ''not json''\<rparr>) = None"
    by (simp add: engine_json_def json_Deserialize_def)
  have e: "Deserialize engine_json (GetContentAsString \<lparr>GetContentAsString = empty_body\<rparr>) = Some (JObject [])"
    using engine_reads_empty_body by simp
  have g: "GetStringField engine_json (GetObjectField engine_json (JObject []) ''tokens'') ''IdToken'' = []"
    by (simp add: engine_json_def json_GetObjectField_def json_GetStringField_def)
  have a: "OnLoginResponse engine_json ?w ?r \<lparr>GetContentAsString = ''not json''\<rparr> True no_effects = no_effects"
    using n malformed_login_reply_not_rejected
      [where api = engine_json and resp = "\<lparr>GetContentAsString = ''not json''\<rparr>"
        and w = ?w and r = ?r and fx = no_effects]
    by blast
  have b: "OnLoginResponse engine_json ?w ?r \<lparr>GetContentAsString = empty_body\<rparr> True no_effects
      = ProcessRequest (StartSessionHttpRequest ?w []) no_effects"
    using e g malformed_login_reply_not_rejected
      [where api = engine_json and resp = "\<lparr>GetContentAsString = empty_body\<rparr>"
        and w = ?w and r = ?r and fx = no_effects]
    by simp
  show ?thesis using n e a b by blast
qed

text \<open>
  Claim C2 as stated fails: on a successful reply whose body is the empty object
  \<^verbatim>\<open>{}\<close>, which has no \<open>tokens.IdToken\<close>, the handler sends the session request, with
  the empty string as its \<open>Authorization\<close> header, and nothing is reported.
\<close>

theorem malformed_login_reply_counterexample:
  "processed (OnLoginResponse engine_json UOfflineMainMenuWidget
       (LoginHttpRequest engine_json UOfflineMainMenuWidget ''u'' ''p'')
       \<lparr>GetContentAsString = empty_body\<rparr> True no_effects)
     = [StartSessionHttpRequest UOfflineMainMenuWidget []]
   \<and> Headers (StartSessionHttpRequest UOfflineMainMenuWidget [])
     = [(''Content-Type'', ''application/json''), (''Authorization'', [])]"
  using engine_reads_empty_body
  by (simp add: OnLoginResponse_def StartSessionRequest_def ProcessRequest_def no_effects_def
      engine_json_def json_GetObjectField_def json_GetStringField_def Let_def
      StartSessionHttpRequest_def)

end
